theory Spec2Isabelle
  imports Complex_Main "HOL-Library.Multiset" "HOL-Library.Sublist"
begin

section \<open>Data model\<close>

text \<open>
  The watcher daemon of termrecord keeps its state in one SQLite file (tables
  \<open>recordings\<close> and \<open>export_queue\<close>) and in the recordings directory on disk.
  Tables are lists of rows in rowid order.  Python \<open>str | None\<close> is \<open>string option\<close>,
  \<open>int\<close> is \<open>int\<close>.  Paths are strings.

  A Python \<open>str\<close> is the list of the bytes of its UTF-8 encoding.  A surrogate code
  point (U+D800 to U+DFFF), which UTF-8 does not have and which \<open>json.loads\<close> keeps
  from a lone escape such as \<open>\ud800\<close>, is written as its three bytes \<open>ED\<close>,
  \<open>A0..BF\<close>, \<open>80..BF\<close>.  The SQLite driver refuses to bind such a string.  The
  strings that the daemon itself produces (validated metadata, watched paths,
  rows, path arithmetic) hold no surrogate; a request of a client can.

  A \<open>float\<close> of a metadata file is a real number or NaN (infinite values are
  left out).  A stored timestamp is a \<open>real\<close>: the column is \<open>REAL NOT NULL\<close> and
  a NaN is bound as NULL, so it is never stored, and the stored values are ordered
  as the reals are.
\<close>

type_synonym path = string

datatype pyfloat = Num real | NaN

fun has_surrogate :: "string \<Rightarrow> bool" where
  "has_surrogate (a # b # s) =
     ((of_char a = (0xED :: nat) \<and> (0xA0 :: nat) \<le> of_char b \<and> of_char b \<le> (0xBF :: nat))
      \<or> has_surrogate (b # s))"
| "has_surrogate s = False"

definition int64 :: "int \<Rightarrow> bool" where
  "int64 n \<longleftrightarrow> - (2 ^ 63) \<le> n \<and> n < 2 ^ 63"

text \<open>\<open>models/metadata.py\<close>: \<open>TerminalInfo\<close>, \<open>RecordingFiles\<close>, \<open>RecordingMetadata\<close>.\<close>

record terminal_info =
  width :: int
  height :: int
  term_type :: string

record recording_files =
  cast :: "string option"
  gif :: "string option"
  screenshot :: "string option"

record recording_metadata =
  md_id :: string
  md_atuin_id :: "string option"
  md_command :: string
  md_timestamp :: pyfloat
  md_duration :: "pyfloat option"
  md_exit_code :: "int option"
  md_cwd :: string
  md_shell :: string
  md_user :: string
  md_hostname :: string
  md_terminal :: terminal_info
  md_files :: recording_files

text \<open>\<open>models/index.py\<close>: \<open>IndexedRecording\<close>, one row of the table \<open>recordings\<close>.\<close>

record recording =
  rec_id :: string
  atuin_id :: "string option"
  command :: string
  timestamp :: real
  duration :: "real option"
  exit_code :: "int option"
  cwd :: string
  shell :: "string option"
  user :: "string option"
  hostname :: "string option"
  cast_path :: "string option"
  gif_path :: "string option"
  screenshot_path :: "string option"
  meta_path :: string
  indexed_at :: int

text \<open>
  One row of the table \<open>export_queue\<close>.  The column \<open>status\<close> only ever receives the
  four literals \<open>'pending'\<close>, \<open>'processing'\<close>, \<open>'done'\<close> and \<open>'failed'\<close>.
\<close>

datatype status = Pending | Processing | Done | Failed

record job =
  job_id :: nat
  recording_id :: string
  export_type :: string
  status :: status
  created_at :: int
  completed_at :: "int option"
  error :: "string option"

text \<open>
  The database: both tables, and the counter that \<open>AUTOINCREMENT\<close> keeps in
  \<open>sqlite_sequence\<close> (the largest job id ever handed out).
\<close>

record db =
  recordings :: "recording list"
  export_queue :: "job list"
  queue_seq :: nat

text \<open>Exceptions that the modelled functions raise, with the text \<open>str(e)\<close> gives.\<close>

datatype exn = FileError string | ValidationError string | RuntimeError string
  | TypeError string | ValueError string | AttributeError string | JSONDecodeError string
  | IntegrityError string | ProgrammingError string | UnicodeEncodeError string
  | OSError string | OverflowError string

fun exn_text :: "exn \<Rightarrow> string" where
  "exn_text (FileError s) = s"
| "exn_text (ValidationError s) = s"
| "exn_text (RuntimeError s) = s"
| "exn_text (TypeError s) = s"
| "exn_text (ValueError s) = s"
| "exn_text (AttributeError s) = s"
| "exn_text (JSONDecodeError s) = s"
| "exn_text (IntegrityError s) = s"
| "exn_text (ProgrammingError s) = s"
| "exn_text (UnicodeEncodeError s) = s"
| "exn_text (OSError s) = s"
| "exn_text (OverflowError s) = s"

section \<open>The indexer (\<open>watcher/indexer.py\<close>)\<close>

text \<open>
  \<open>index_recording\<close> reads the file (\<open>read_text\<close>), validates it
  (\<open>RecordingMetadata.model_validate_json\<close>, a pydantic function, taken as the
  parameter \<open>validate\<close>) and runs \<open>INSERT OR REPLACE\<close> with fourteen columns.
  \<open>indexed_at\<close> is not among them, so it takes its default, the clock at the insert.

  A float is bound as \<open>REAL\<close>, a NaN as NULL.  In \<open>row_of\<close> the timestamp of a
  NaN has no meaning: \<open>index_recording\<close> raises before such a row is written.
\<close>

definition bound_float :: "pyfloat \<Rightarrow> real option" where
  "bound_float x = (case x of Num v \<Rightarrow> Some v | NaN \<Rightarrow> None)"

definition row_of :: "recording_metadata \<Rightarrow> path \<Rightarrow> int \<Rightarrow> recording" where
  "row_of meta mp now =
     \<lparr>rec_id = md_id meta, atuin_id = md_atuin_id meta, command = md_command meta,
      timestamp = (case bound_float (md_timestamp meta) of Some v \<Rightarrow> v | None \<Rightarrow> 0),
      duration = (case md_duration meta of None \<Rightarrow> None | Some x \<Rightarrow> bound_float x),
      exit_code = md_exit_code meta, cwd = md_cwd meta, shell = Some (md_shell meta),
      user = Some (md_user meta), hostname = Some (md_hostname meta),
      cast_path = cast (md_files meta), gif_path = gif (md_files meta),
      screenshot_path = screenshot (md_files meta), meta_path = mp, indexed_at = now\<rparr>"

text \<open>
  \<open>OR REPLACE\<close> deletes every row that the new one collides with, on the primary
  key \<open>id\<close> or on the \<open>UNIQUE\<close> column \<open>atuin_id\<close> (NULLs never collide), and then
  inserts the new row, which gets a fresh rowid and so goes last.
\<close>

definition conflicts :: "recording \<Rightarrow> recording \<Rightarrow> bool" where
  "conflicts new old \<longleftrightarrow>
     rec_id old = rec_id new \<or> (atuin_id new \<noteq> None \<and> atuin_id old = atuin_id new)"

definition insert_or_replace :: "recording \<Rightarrow> recording list \<Rightarrow> recording list" where
  "insert_or_replace new rows = filter (\<lambda>old. \<not> conflicts new old) rows @ [new]"

text \<open>
  The statement raises, and changes nothing, in two cases: the driver refuses an
  \<open>exit_code\<close> that does not fit into 64 bits when it binds the parameters, and
  SQLite refuses a NULL timestamp when it runs the statement.
\<close>

definition too_large :: string where
  "too_large = ''Python int too large to convert to SQLite INTEGER''"

definition timestamp_null :: string where
  "timestamp_null = ''NOT NULL constraint failed: recordings.timestamp''"

definition index_recording ::
  "(path \<Rightarrow> exn + string) \<Rightarrow> (string \<Rightarrow> exn + recording_metadata) \<Rightarrow> int \<Rightarrow> path \<Rightarrow> db
     \<Rightarrow> exn + db" where
  "index_recording read_text validate now mp d =
     (case read_text mp of
        Inl e \<Rightarrow> Inl e
      | Inr content \<Rightarrow>
          (case validate content of
             Inl e \<Rightarrow> Inl e
           | Inr meta \<Rightarrow>
               if (case md_exit_code meta of None \<Rightarrow> False | Some c \<Rightarrow> \<not> int64 c)
               then Inl (OverflowError too_large)
               else if bound_float (md_timestamp meta) = None
               then Inl (IntegrityError timestamp_null)
               else Inr (d\<lparr>recordings :=
                            insert_or_replace (row_of meta mp now) (recordings d)\<rparr>)))"

text \<open>\<open>get_by_id\<close>, \<open>get_by_atuin_id\<close>: \<open>fetchone\<close> gives the first matching row.\<close>

definition get_by_id :: "string \<Rightarrow> db \<Rightarrow> recording option" where
  "get_by_id i d = find (\<lambda>r. rec_id r = i) (recordings d)"

definition get_by_atuin_id :: "string \<Rightarrow> db \<Rightarrow> recording option" where
  "get_by_atuin_id i d = find (\<lambda>r. atuin_id r = Some i) (recordings d)"

text \<open>
  The operator \<open>LIKE\<close> of SQLite, with no \<open>ESCAPE\<close>: \<open>%\<close> in the pattern stands for
  any run of characters, \<open>_\<close> for any one character, and every other character
  matches itself or its other ASCII case.  One character of the string is a byte
  and, after a lead byte (\<open>C0\<close> and above), the continuation bytes (\<open>80..BF\<close>)
  that follow it.
\<close>

definition ascii_upper :: "char \<Rightarrow> char" where
  "ascii_upper c =
     (let n = (of_char c :: nat) in if 97 \<le> n \<and> n \<le> 122 then char_of (n - 32) else c)"

definition continuation :: "char \<Rightarrow> bool" where
  "continuation c \<longleftrightarrow> (0x80 :: nat) \<le> of_char c \<and> of_char c \<le> (0xBF :: nat)"

definition after_char :: "char \<Rightarrow> string \<Rightarrow> string" where
  "after_char c s = (if (0xC0 :: nat) \<le> of_char c then dropWhile continuation s else s)"

function like :: "string \<Rightarrow> string \<Rightarrow> bool" where
  "like [] s = (s = [])"
| "like (p # ps) [] = (p = CHR ''%'' \<and> like ps [])"
| "like (p # ps) (c # s) =
     (if p = CHR ''%'' then like ps (c # s) \<or> like (p # ps) (after_char c s)
      else if p = CHR ''_'' then like ps (after_char c s)
      else ascii_upper p = ascii_upper c \<and> like ps s)"
  by pat_completeness auto
termination
proof (relation "measure (\<lambda>(p, s). length p + length s)")
  show "wf (measure (\<lambda>(p, s). length p + length s))"
    by simp
next
  fix p :: char and ps :: string and c :: char and s :: string
  have "length (after_char c s) \<le> length s"
    by (simp add: after_char_def length_dropWhile_le)
  then show "((p # ps, after_char c s), (p # ps, c # s))
               \<in> measure (\<lambda>(p, s). length p + length s)"
    and "((ps, after_char c s), (p # ps, c # s)) \<in> measure (\<lambda>(p, s). length p + length s)"
    by simp_all
qed simp_all

text \<open>
  \<open>ORDER BY timestamp\<close>.  SQL does not fix the order of rows with equal
  timestamps; SQLite reads the index \<open>idx_timestamp\<close>, forwards for \<open>DESC\<close>,
  which leaves them in rowid order, and backwards for \<open>ASC\<close>, which reverses all.
  \<open>LIMIT ? OFFSET ?\<close>: a negative limit is no limit, a negative offset is 0.
\<close>

definition order_by_timestamp_desc :: "recording list \<Rightarrow> recording list" where
  "order_by_timestamp_desc rows = sort_key (\<lambda>r. - timestamp r) rows"

definition order_by_timestamp_asc :: "recording list \<Rightarrow> recording list" where
  "order_by_timestamp_asc rows = rev (order_by_timestamp_desc rows)"

definition limit_offset :: "int \<Rightarrow> int \<Rightarrow> 'a list \<Rightarrow> 'a list" where
  "limit_offset lmt ofs rows =
     (let rest = drop (nat ofs) rows in if lmt < 0 then rest else take (nat lmt) rest)"

text \<open>\<open>exit_code != 0\<close> is not true of a NULL exit code.\<close>

definition nonzero_exit :: "recording \<Rightarrow> bool" where
  "nonzero_exit r = (case exit_code r of None \<Rightarrow> False | Some c \<Rightarrow> c \<noteq> 0)"

text \<open>
  \<open>list_recordings\<close>.  The filter on \<open>cwd\<close> is added only \<open>if cwd\<close>, that is for a
  string that is present and not empty; its pattern is \<open>f"{cwd}%"\<close>.
\<close>

definition list_recordings :: "int \<Rightarrow> int \<Rightarrow> bool \<Rightarrow> string option \<Rightarrow> db \<Rightarrow> recording list" where
  "list_recordings lmt ofs failed_only cwd_arg d =
     (let rows = recordings d;
          rows = (if failed_only then filter nonzero_exit rows else rows);
          rows = (case cwd_arg of
                    None \<Rightarrow> rows
                  | Some p \<Rightarrow> if p = [] then rows
                             else filter (\<lambda>r. like (p @ ''%'') (cwd r)) rows)
      in limit_offset lmt ofs (order_by_timestamp_desc rows))"

definition get_stats :: "db \<Rightarrow> nat \<times> nat" where
  "get_stats d = (length (recordings d), length (filter nonzero_exit (recordings d)))"

text \<open>\<open>delete_recording\<close> touches the table \<open>recordings\<close> only.\<close>

definition delete_recording :: "string \<Rightarrow> db \<Rightarrow> bool \<times> db" where
  "delete_recording i d =
     (\<exists>r \<in> set (recordings d). rec_id r = i,
      d\<lparr>recordings := filter (\<lambda>r. rec_id r \<noteq> i) (recordings d)\<rparr>)"

section \<open>The export queue (\<open>watcher/exporter.py\<close>)\<close>

text \<open>
  What \<open>_generate_gif\<close> takes from outside the daemon: the path arithmetic of
  \<open>pathlib\<close> and the external program \<open>agg\<close>.  \<open>cast_file c\<close> is
  \<open>storage_dir / "recordings" / c\<close>; \<open>relative_to_recordings\<close> is
  \<open>relative_to(storage_dir / "recordings")\<close>, which raises for a path outside that
  directory; \<open>agg\<close> gets the two paths (speed and idle limit are fixed by the
  configuration) and gives the return code and stderr, or the exception of
  \<open>create_subprocess_exec\<close>.
\<close>

record exporter_env =
  cast_file :: "string \<Rightarrow> path"
  with_suffix :: "path \<Rightarrow> string \<Rightarrow> path"
  relative_to_recordings :: "path \<Rightarrow> exn + string"
  agg :: "path \<Rightarrow> path \<Rightarrow> exn + (int \<times> string)"

text \<open>\<open>enqueue\<close>: the job gets the next id, \<open>created_at\<close> is the clock.\<close>

definition enqueue :: "string \<Rightarrow> string \<Rightarrow> int \<Rightarrow> db \<Rightarrow> db" where
  "enqueue rid etype now d =
     d\<lparr>export_queue := export_queue d @
          [\<lparr>job_id = Suc (queue_seq d), recording_id = rid, export_type = etype,
            status = Pending, created_at = now, completed_at = None, error = None\<rparr>],
       queue_seq := Suc (queue_seq d)\<rparr>"

text \<open>
  The query of \<open>_process_next\<close>: pending jobs joined with their recordings, ordered
  by \<open>created_at\<close>, first row.  Jobs of equal \<open>created_at\<close> are kept in rowid order.
\<close>

definition pending_joined :: "db \<Rightarrow> (job \<times> recording) list" where
  "pending_joined d =
     concat (map (\<lambda>j. map (Pair j) (filter (\<lambda>r. recording_id j = rec_id r) (recordings d)))
                 (filter (\<lambda>j. status j = Pending) (export_queue d)))"

definition select_next :: "db \<Rightarrow> (job \<times> recording) option" where
  "select_next d =
     (case sort_key (\<lambda>jr. created_at (fst jr)) (pending_joined d) of
        [] \<Rightarrow> None
      | jr # _ \<Rightarrow> Some jr)"

text \<open>\<open>UPDATE export_queue SET ... WHERE id = ?\<close>\<close>

definition update_job :: "nat \<Rightarrow> (job \<Rightarrow> job) \<Rightarrow> db \<Rightarrow> db" where
  "update_job qid f d =
     d\<lparr>export_queue := map (\<lambda>j. if job_id j = qid then f j else j) (export_queue d)\<rparr>"

text \<open>
  The first half of \<open>_process_next\<close>: nothing to do without a row, otherwise the
  job is marked \<open>processing\<close> and the row \<open>(id, recording_id, export_type, cast_path)\<close>
  is kept.
\<close>

definition claim :: "db \<Rightarrow> ((nat \<times> string \<times> string \<times> string option) \<times> db) option" where
  "claim d =
     (case select_next d of
        None \<Rightarrow> None
      | Some (j, r) \<Rightarrow>
          Some ((job_id j, recording_id j, export_type j, cast_path r),
                update_job (job_id j) (\<lambda>q. q\<lparr>status := Processing\<rparr>) d))"

text \<open>
  \<open>_generate_gif\<close>.  A NULL \<open>cast_path\<close> makes the path division raise; a
  nonzero return code raises \<open>RuntimeError\<close>; the recording's \<open>gif_path\<close> is written
  last, after everything that can raise.
\<close>

definition path_div_none :: string where
  "path_div_none =
     ''unsupported operand type(s) for /: 'PosixPath' and 'NoneType'' @ [CHR 0x27]"

definition generate_gif :: "exporter_env \<Rightarrow> string \<Rightarrow> string option \<Rightarrow> db \<Rightarrow> exn + db" where
  "generate_gif env rid cp d =
     (case cp of
        None \<Rightarrow> Inl (TypeError path_div_none)
      | Some c \<Rightarrow>
          (let full_cast_path = cast_file env c;
               gif_file = with_suffix env full_cast_path ''.gif''
           in case agg env full_cast_path gif_file of
                Inl e \<Rightarrow> Inl e
              | Inr (returncode, stderr) \<Rightarrow>
                  if returncode \<noteq> 0 then Inl (RuntimeError (''agg failed: '' @ stderr))
                  else (case relative_to_recordings env gif_file of
                          Inl e \<Rightarrow> Inl e
                        | Inr relative_gif \<Rightarrow>
                            Inr (d\<lparr>recordings :=
                                     map (\<lambda>r. if rec_id r = rid
                                               then r\<lparr>gif_path := Some relative_gif\<rparr> else r)
                                         (recordings d)\<rparr>))))"

text \<open>
  \<open>_process_next\<close>, one worker cycle.  The \<open>try\<close> block marks the job \<open>done\<close>
  with \<open>completed_at\<close>; the \<open>except\<close> block marks it \<open>failed\<close> with \<open>str(e)\<close>.
\<close>

definition process_next :: "exporter_env \<Rightarrow> int \<Rightarrow> db \<Rightarrow> db" where
  "process_next env now d =
     (case claim d of
        None \<Rightarrow> d
      | Some ((queue_id, rid, etype, cp), d1) \<Rightarrow>
          (case (if etype = ''gif'' then generate_gif env rid cp d1 else Inr d1) of
             Inr d2 \<Rightarrow>
               update_job queue_id (\<lambda>q. q\<lparr>status := Done, completed_at := Some now\<rparr>) d2
           | Inl e \<Rightarrow>
               update_job queue_id (\<lambda>q. q\<lparr>status := Failed, error := Some (exn_text e)\<rparr>) d1))"

text \<open>Worker cycles one after the other, each with its own surroundings and clock.\<close>

fun worker_cycles :: "(exporter_env \<times> int) list \<Rightarrow> db \<Rightarrow> db" where
  "worker_cycles [] d = d"
| "worker_cycles ((env, now) # cs) d = worker_cycles cs (process_next env now d)"

section \<open>Retention cleanup (\<open>watcher/cleanup.py\<close>)\<close>

text \<open>
  The files on disk with their sizes, as an association list with one entry per
  path.  \<open>_delete_recording_files\<close> removes the metadata file and its three siblings
  where they exist, adds up their sizes, and deletes the row.
\<close>

type_synonym files = "(path \<times> nat) list"

record retention_config =
  max_age_days :: int
  max_size_gb :: real
  max_count :: int
  cleanup_interval_hours :: int

definition unlink_counted :: "path \<Rightarrow> nat \<times> files \<Rightarrow> nat \<times> files" where
  "unlink_counted p acc =
     (case map_of (snd acc) p of
        None \<Rightarrow> acc
      | Some sz \<Rightarrow> (fst acc + sz, filter (\<lambda>e. fst e \<noteq> p) (snd acc)))"

definition delete_recording_files ::
  "(path \<Rightarrow> string \<Rightarrow> path) \<Rightarrow> string \<Rightarrow> path \<Rightarrow> files \<times> db \<Rightarrow> nat \<times> files \<times> db" where
  "delete_recording_files suffixed rid mp st =
     (let acc = unlink_counted mp (0, fst st);
          acc = fold (\<lambda>suffix. unlink_counted (suffixed mp suffix))
                     [''.cast'', ''.gif'', ''.png''] acc
      in (fst acc, snd acc, snd (delete_recording rid (snd st))))"

definition calculate_storage_size :: "(path \<Rightarrow> bool) \<Rightarrow> files \<Rightarrow> nat" where
  "calculate_storage_size in_recordings fs =
     sum_list (map snd (filter (\<lambda>e. in_recordings (fst e)) fs))"

text \<open>
  The running totals and the state of one cleanup.  Each pass reads its rows
  \<open>(id, meta_path)\<close> with one query, which SQLite answers from \<open>idx_timestamp\<close>,
  and then goes through them.
\<close>

record cleanup_state =
  deleted_count :: nat
  freed_bytes :: nat
  disk :: files
  index :: db

fun delete_pass ::
  "(path \<Rightarrow> string \<Rightarrow> path) \<Rightarrow> bool \<Rightarrow> (string \<times> path) list \<Rightarrow> cleanup_state \<Rightarrow> cleanup_state" where
  "delete_pass suffixed dry_run [] st = st"
| "delete_pass suffixed dry_run ((rid, mp) # rows) st =
     (if \<not> dry_run then
        (case delete_recording_files suffixed rid mp (disk st, index st) of
           (freed, fs', d') \<Rightarrow>
             delete_pass suffixed dry_run rows
               (st\<lparr>deleted_count := deleted_count st + 1,
                   freed_bytes := freed_bytes st + freed, disk := fs', index := d'\<rparr>))
      else delete_pass suffixed dry_run rows (st\<lparr>deleted_count := deleted_count st + 1\<rparr>))"

fun size_pass ::
  "(path \<Rightarrow> string \<Rightarrow> path) \<Rightarrow> bool \<Rightarrow> real \<Rightarrow> (string \<times> path) list \<Rightarrow> int \<Rightarrow> cleanup_state
     \<Rightarrow> cleanup_state" where
  "size_pass suffixed dry_run max_bytes [] current_size st = st"
| "size_pass suffixed dry_run max_bytes ((rid, mp) # rows) current_size st =
     (if real_of_int current_size \<le> max_bytes then st
      else if \<not> dry_run then
        (case delete_recording_files suffixed rid mp (disk st, index st) of
           (freed, fs', d') \<Rightarrow>
             size_pass suffixed dry_run max_bytes rows (current_size - int freed)
               (st\<lparr>deleted_count := deleted_count st + 1,
                   freed_bytes := freed_bytes st + freed, disk := fs', index := d'\<rparr>))
      else size_pass suffixed dry_run max_bytes rows current_size
             (st\<lparr>deleted_count := deleted_count st + 1\<rparr>))"

definition id_and_meta_path :: "recording \<Rightarrow> string \<times> path" where
  "id_and_meta_path r = (rec_id r, meta_path r)"

text \<open>
  \<open>run_cleanup\<close>: by age, by count (\<open>LIMIT -1 OFFSET max_count\<close>), by size.
  \<open>now\<close> is \<open>time.time()\<close>; \<open>in_recordings\<close> says which paths
  \<open>recordings_dir.rglob("*")\<close> finds.
\<close>

definition run_cleanup ::
  "(path \<Rightarrow> string \<Rightarrow> path) \<Rightarrow> (path \<Rightarrow> bool) \<Rightarrow> retention_config \<Rightarrow> real \<Rightarrow> bool
     \<Rightarrow> files \<times> db \<Rightarrow> cleanup_state" where
  "run_cleanup suffixed in_recordings cfg now dry_run st0 =
     (let st = \<lparr>deleted_count = 0, freed_bytes = 0, disk = fst st0, index = snd st0\<rparr>;
          max_age_seconds = max_age_days cfg * 86400;
          cutoff = now - real_of_int max_age_seconds;
          st = delete_pass suffixed dry_run
                 (map id_and_meta_path
                    (filter (\<lambda>r. timestamp r < cutoff)
                       (order_by_timestamp_desc (recordings (index st))))) st;
          st = delete_pass suffixed dry_run
                 (map id_and_meta_path
                    (limit_offset (- 1) (max_count cfg)
                       (order_by_timestamp_desc (recordings (index st))))) st;
          max_bytes = max_size_gb cfg * 1024 * 1024 * 1024;
          current_size = int (calculate_storage_size in_recordings (disk st))
      in if real_of_int current_size > max_bytes
         then size_pass suffixed dry_run max_bytes
                (map id_and_meta_path (order_by_timestamp_asc (recordings (index st))))
                current_size st
         else st)"

section \<open>The status server (\<open>watcher/server.py\<close>)\<close>

text \<open>
  A request is whatever \<open>json.loads\<close> returns; a response is a dictionary that
  \<open>json.dumps\<close> writes.  A dictionary is an association list with one entry per key.
\<close>

datatype json = JNull | JBool bool | JInt int | JFloat real | JStr string
  | JArr "json list" | JObj "(string \<times> json) list"

text \<open>A value bound to a \<open>?\<close> of a statement.\<close>

datatype sqlval = SqlNull | SqlInt int | SqlReal real | SqlText string

text \<open>
  What the server takes from Python and SQLite: \<open>json_loads\<close> is
  \<open>json.loads(data.decode().strip())\<close>; \<open>py_repr\<close> is \<open>str\<close> on numbers, lists and
  dictionaries; \<open>bind_error\<close> is the exception of \<open>sqlite3\<close> for a parameter it
  cannot bind; \<open>int_text\<close> and \<open>real_text\<close> are the texts SQLite compares a number
  with a \<open>TEXT\<close> column by; \<open>limit_value\<close> is what SQLite makes of an operand of
  \<open>LIMIT\<close> or \<open>OFFSET\<close> that is not an integer.
\<close>

record runtime =
  json_loads :: "string \<Rightarrow> exn + json"
  py_repr :: "json \<Rightarrow> string"
  bind_error :: "json \<Rightarrow> exn"
  int_text :: "int \<Rightarrow> string"
  real_text :: "real \<Rightarrow> string"
  limit_value :: "sqlval \<Rightarrow> exn + int"

text \<open>Truth value of a Python object, and \<open>f"{v}"\<close>.\<close>

fun truthy :: "json \<Rightarrow> bool" where
  "truthy JNull = False"
| "truthy (JBool b) = b"
| "truthy (JInt n) = (n \<noteq> 0)"
| "truthy (JFloat x) = (x \<noteq> 0)"
| "truthy (JStr s) = (s \<noteq> [])"
| "truthy (JArr vs) = (vs \<noteq> [])"
| "truthy (JObj kvs) = (kvs \<noteq> [])"

fun py_format :: "runtime \<Rightarrow> json \<Rightarrow> string" where
  "py_format rt (JStr s) = s"
| "py_format rt JNull = ''None''"
| "py_format rt (JBool b) = (if b then ''True'' else ''False'')"
| "py_format rt v = py_repr rt v"

fun type_name :: "json \<Rightarrow> string" where
  "type_name JNull = ''NoneType''"
| "type_name (JBool b) = ''bool''"
| "type_name (JInt n) = ''int''"
| "type_name (JFloat x) = ''float''"
| "type_name (JStr s) = ''str''"
| "type_name (JArr vs) = ''list''"
| "type_name (JObj kvs) = ''dict''"

definition no_get :: "json \<Rightarrow> exn" where
  "no_get v =
     AttributeError
       ([CHR 0x27] @ type_name v @ [CHR 0x27] @ '' object has no attribute 'get'' @ [CHR 0x27])"

text \<open>\<open>message.get(key, default)\<close> on a dictionary.\<close>

definition dict_get :: "(string \<times> json) list \<Rightarrow> string \<Rightarrow> json \<Rightarrow> json" where
  "dict_get kvs k dflt = (case map_of kvs k of None \<Rightarrow> dflt | Some v \<Rightarrow> v)"

text \<open>
  Binding a Python value: \<open>None\<close>, integers of 64 bits, floats and strings without
  surrogates are bound; larger integers, strings with a surrogate, lists and
  dictionaries are refused.
\<close>

fun sql_bind :: "runtime \<Rightarrow> json \<Rightarrow> exn + sqlval" where
  "sql_bind rt JNull = Inr SqlNull"
| "sql_bind rt (JBool b) = Inr (SqlInt (if b then 1 else 0))"
| "sql_bind rt (JInt n) =
     (if int64 n then Inr (SqlInt n) else Inl (OverflowError too_large))"
| "sql_bind rt (JFloat x) = Inr (SqlReal x)"
| "sql_bind rt (JStr s) =
     (if has_surrogate s then Inl (bind_error rt (JStr s)) else Inr (SqlText s))"
| "sql_bind rt v = Inl (bind_error rt v)"

text \<open>
  \<open>id = ?\<close> and \<open>atuin_id = ?\<close> compare a \<open>TEXT\<close> column with the parameter: a
  number is compared as text, NULL equals nothing.
\<close>

fun as_text :: "runtime \<Rightarrow> sqlval \<Rightarrow> string option" where
  "as_text rt SqlNull = None"
| "as_text rt (SqlInt n) = Some (int_text rt n)"
| "as_text rt (SqlReal x) = Some (real_text rt x)"
| "as_text rt (SqlText s) = Some s"

fun as_limit :: "runtime \<Rightarrow> sqlval \<Rightarrow> exn + int" where
  "as_limit rt (SqlInt n) = Inr n"
| "as_limit rt v = limit_value rt v"

text \<open>\<open>rec.model_dump()\<close>\<close>

definition opt_json :: "('a \<Rightarrow> json) \<Rightarrow> 'a option \<Rightarrow> json" where
  "opt_json f v = (case v of None \<Rightarrow> JNull | Some x \<Rightarrow> f x)"

definition model_dump :: "recording \<Rightarrow> json" where
  "model_dump r =
     JObj [(''id'', JStr (rec_id r)), (''atuin_id'', opt_json JStr (atuin_id r)),
           (''command'', JStr (command r)), (''timestamp'', JFloat (timestamp r)),
           (''duration'', opt_json JFloat (duration r)),
           (''exit_code'', opt_json JInt (exit_code r)), (''cwd'', JStr (cwd r)),
           (''shell'', opt_json JStr (shell r)), (''user'', opt_json JStr (user r)),
           (''hostname'', opt_json JStr (hostname r)),
           (''cast_path'', opt_json JStr (cast_path r)),
           (''gif_path'', opt_json JStr (gif_path r)),
           (''screenshot_path'', opt_json JStr (screenshot_path r)),
           (''meta_path'', JStr (meta_path r)), (''indexed_at'', JInt (indexed_at r))]"

text \<open>
  The four actions, each on the dictionary of the request.  The model binds the
  parameters of a query where the action is (\<open>sql_bind\<close>, in the order of the
  parameter list: pattern, limit, offset); \<open>list_recordings\<close>, \<open>get_by_id\<close> and
  \<open>get_by_atuin_id\<close> are the queries on the bound values.
\<close>

definition do_status :: "db \<Rightarrow> json" where
  "do_status d =
     JObj [(''status'', JStr ''running''),
           (''stats'', JObj [(''total_count'', JInt (int (fst (get_stats d)))),
                             (''failed_count'', JInt (int (snd (get_stats d))))])]"

definition do_list :: "runtime \<Rightarrow> (string \<times> json) list \<Rightarrow> db \<Rightarrow> exn + json" where
  "do_list rt kvs d =
     (let failed_only = truthy (dict_get kvs ''failed_only'' (JBool False));
          cwd_v = dict_get kvs ''cwd'' JNull;
          cwd_arg = (if truthy cwd_v then Some (py_format rt cwd_v) else None)
      in case (case cwd_arg of
                 None \<Rightarrow> Inr SqlNull
               | Some p \<Rightarrow> sql_bind rt (JStr (p @ ''%''))) of
           Inl e \<Rightarrow> Inl e
         | Inr pattern \<Rightarrow>
             (case sql_bind rt (dict_get kvs ''limit'' (JInt 50)) of
                Inl e \<Rightarrow> Inl e
              | Inr lv \<Rightarrow>
                  (case sql_bind rt (dict_get kvs ''offset'' (JInt 0)) of
                     Inl e \<Rightarrow> Inl e
                   | Inr ov \<Rightarrow>
                       (case as_limit rt lv of
                          Inl e \<Rightarrow> Inl e
                        | Inr lmt \<Rightarrow>
                            (case as_limit rt ov of
                               Inl e \<Rightarrow> Inl e
                             | Inr ofs \<Rightarrow>
                                 Inr (JObj [(''recordings'',
                                        JArr (map model_dump
                                          (list_recordings lmt ofs failed_only cwd_arg
                                             d)))]))))))"

text \<open>
  \<open>get\<close>: the recording id first, the atuin id if that found nothing, and
  \<open>{"recording": None}\<close> if neither did.
\<close>

definition do_get :: "runtime \<Rightarrow> (string \<times> json) list \<Rightarrow> db \<Rightarrow> exn + json" where
  "do_get rt kvs d =
     (case sql_bind rt (dict_get kvs ''id'' JNull) of
        Inl e \<Rightarrow> Inl e
      | Inr v \<Rightarrow>
          (let key = as_text rt v;
               rec = (case key of None \<Rightarrow> None | Some i \<Rightarrow> get_by_id i d);
               rec = (case rec of
                        None \<Rightarrow> (case key of None \<Rightarrow> None | Some i \<Rightarrow> get_by_atuin_id i d)
                      | Some r \<Rightarrow> Some r)
           in case rec of
                Some r \<Rightarrow> Inr (JObj [(''recording'', model_dump r)])
              | None \<Rightarrow> Inr (JObj [(''recording'', JNull)])))"

definition do_cleanup ::
  "(path \<Rightarrow> string \<Rightarrow> path) \<Rightarrow> (path \<Rightarrow> bool) \<Rightarrow> retention_config \<Rightarrow> real
     \<Rightarrow> (string \<times> json) list \<Rightarrow> files \<times> db \<Rightarrow> json \<times> files \<times> db" where
  "do_cleanup suffixed in_recordings cfg now kvs st =
     (let res = run_cleanup suffixed in_recordings cfg now
                  (truthy (dict_get kvs ''dry_run'' (JBool False))) st
      in (JObj [(''deleted_count'', JInt (int (deleted_count res))),
                (''freed_bytes'', JInt (int (freed_bytes res)))],
          disk res, index res))"

text \<open>\<open>_process_message\<close>: \<open>message.get\<close> raises on anything but a dictionary.\<close>

definition process_message ::
  "runtime \<Rightarrow> (path \<Rightarrow> string \<Rightarrow> path) \<Rightarrow> (path \<Rightarrow> bool) \<Rightarrow> retention_config \<Rightarrow> real
     \<Rightarrow> json \<Rightarrow> files \<times> db \<Rightarrow> exn + (json \<times> files \<times> db)" where
  "process_message rt suffixed in_recordings cfg now message st =
     (case message of
        JObj kvs \<Rightarrow>
          (let action = dict_get kvs ''action'' JNull
           in if action = JStr ''status'' then Inr (do_status (snd st), st)
              else if action = JStr ''list'' then
                (case do_list rt kvs (snd st) of Inl e \<Rightarrow> Inl e | Inr resp \<Rightarrow> Inr (resp, st))
              else if action = JStr ''get'' then
                (case do_get rt kvs (snd st) of Inl e \<Rightarrow> Inl e | Inr resp \<Rightarrow> Inr (resp, st))
              else if action = JStr ''cleanup'' then
                Inr (do_cleanup suffixed in_recordings cfg now kvs st)
              else Inr (JObj [(''error'', JStr (''Unknown action: '' @ py_format rt action))], st))
      | _ \<Rightarrow> Inl (no_get message))"

text \<open>
  \<open>_handle_client\<close>: \<open>line\<close> is what \<open>reader.readline()\<close> gives or raises.  The
  \<open>except\<close> block writes \<open>{"error": str(e)}\<close>; the \<open>finally\<close> block closes the
  writer on every path.
\<close>

record connection =
  written :: "json list"
  closed :: bool

definition handle_client ::
  "runtime \<Rightarrow> (path \<Rightarrow> string \<Rightarrow> path) \<Rightarrow> (path \<Rightarrow> bool) \<Rightarrow> retention_config \<Rightarrow> real
     \<Rightarrow> exn + string \<Rightarrow> files \<times> db \<Rightarrow> connection \<times> files \<times> db" where
  "handle_client rt suffixed in_recordings cfg now line st =
     (let outcome =
            (case line of
               Inl e \<Rightarrow> Inl e
             | Inr data \<Rightarrow>
                 (case json_loads rt data of
                    Inl e \<Rightarrow> Inl e
                  | Inr message \<Rightarrow>
                      process_message rt suffixed in_recordings cfg now message st));
          tried =
            (case outcome of
               Inr (response, st') \<Rightarrow> (\<lparr>written = [response], closed = False\<rparr>, st')
             | Inl e \<Rightarrow>
                 (\<lparr>written = [JObj [(''error'', JStr (exn_text e))]], closed = False\<rparr>, st))
      in (fst tried\<lparr>closed := True\<rparr>, snd tried))"

section \<open>Predicates used in the statements\<close>

text \<open>
  A job that the query of \<open>_process_next\<close> can return: pending, and with a row in
  \<open>recordings\<close> for its \<open>recording_id\<close>.
\<close>

definition claimable :: "db \<Rightarrow> job \<Rightarrow> bool" where
  "claimable d j \<longleftrightarrow>
     j \<in> set (export_queue d) \<and> status j = Pending \<and>
     (\<exists>r \<in> set (recordings d). rec_id r = recording_id j)"

text \<open>
  A pending job \<open>j\<close> for the recording \<open>rid\<close> in a queue with unique job ids (the
  primary key), while no recording has that id.
\<close>

definition orphaned :: "string \<Rightarrow> job \<Rightarrow> db \<Rightarrow> bool" where
  "orphaned rid j d \<longleftrightarrow>
     distinct (map job_id (export_queue d)) \<and> j \<in> set (export_queue d) \<and>
     status j = Pending \<and> recording_id j = rid \<and>
     (\<forall>r \<in> set (recordings d). rec_id r \<noteq> rid)"


section \<open>Example data\<close>

text \<open>A metadata file and what reading and validating it give.\<close>

definition example_metadata :: recording_metadata where
  "example_metadata =
     \<lparr>md_id = ''rec1'', md_atuin_id = None, md_command = ''ls'', md_timestamp = Num 1000,
      md_duration = None, md_exit_code = Some 0, md_cwd = ''/home/ab'', md_shell = ''zsh'',
      md_user = ''u'', md_hostname = ''h'',
      md_terminal = \<lparr>width = 80, height = 24, term_type = ''xterm''\<rparr>,
      md_files = \<lparr>cast = Some ''rec1.cast'', gif = None, screenshot = None\<rparr>\<rparr>"

definition example_read :: "path \<Rightarrow> exn + string" where
  "example_read p = Inr ''{...}''"

definition example_validate :: "string \<Rightarrow> exn + recording_metadata" where
  "example_validate content = Inr example_metadata"

definition empty_db :: db where
  "empty_db = \<lparr>recordings = [], export_queue = [], queue_seq = 0\<rparr>"

text \<open>Two recordings; the second one has an atuin id and failed.\<close>

definition row_a :: recording where
  "row_a = \<lparr>rec_id = ''a'', atuin_id = None, command = ''ls'', timestamp = 10,
      duration = None, exit_code = Some 0, cwd = ''/home/ab'', shell = Some ''zsh'',
      user = Some ''u'', hostname = Some ''h'', cast_path = Some ''a.cast'', gif_path = None,
      screenshot_path = None, meta_path = ''/r/a.meta.json'', indexed_at = 11\<rparr>"

definition row_b :: recording where
  "row_b = \<lparr>rec_id = ''b'', atuin_id = Some ''hist-b'', command = ''make'', timestamp = 20,
      duration = Some 2, exit_code = Some 1, cwd = ''/home/a_x'', shell = Some ''zsh'',
      user = Some ''u'', hostname = Some ''h'', cast_path = Some ''b.cast'', gif_path = None,
      screenshot_path = None, meta_path = ''/r/b.meta.json'', indexed_at = 21\<rparr>"

definition two_rows :: db where
  "two_rows = \<lparr>recordings = [row_a, row_b], export_queue = [], queue_seq = 0\<rparr>"

text \<open>
  Jobs: one for a recording that is not indexed, older than the others; one for
  \<open>row_a\<close>; one for \<open>row_b\<close>; one of a kind other than \<open>gif\<close>.
\<close>

definition job_orphan :: job where
  "job_orphan = \<lparr>job_id = 1, recording_id = ''gone'', export_type = ''gif'', status = Pending,
      created_at = 100, completed_at = None, error = None\<rparr>"

definition job_a :: job where
  "job_a = \<lparr>job_id = 2, recording_id = ''a'', export_type = ''gif'', status = Pending,
      created_at = 200, completed_at = None, error = None\<rparr>"

definition job_png :: job where
  "job_png = \<lparr>job_id = 3, recording_id = ''a'', export_type = ''png'', status = Pending,
      created_at = 300, completed_at = None, error = None\<rparr>"

definition job_b :: job where
  "job_b = \<lparr>job_id = 1, recording_id = ''b'', export_type = ''gif'', status = Pending,
      created_at = 100, completed_at = None, error = None\<rparr>"

definition queue_db :: db where
  "queue_db = \<lparr>recordings = [row_a], export_queue = [job_orphan, job_a], queue_seq = 2\<rparr>"

definition png_db :: db where
  "png_db = \<lparr>recordings = [row_a], export_queue = [job_png], queue_seq = 3\<rparr>"

definition two_jobs_db :: db where
  "two_jobs_db = \<lparr>recordings = [row_a, row_b], export_queue = [job_b, job_a], queue_seq = 2\<rparr>"

text \<open>
  Surroundings of the exporter: \<open>replace_suffix\<close> replaces what follows the last
  dot, as \<open>with_suffix\<close> does on a name with a suffix; the storage directory is
  \<open>/s\<close>; \<open>agg\<close> fails in the first and succeeds in the second.
\<close>

definition replace_suffix :: "path \<Rightarrow> string \<Rightarrow> path" where
  "replace_suffix p s = rev (drop 1 (dropWhile (\<lambda>c. c \<noteq> CHR ''.'') (rev p))) @ s"

definition failing_env :: exporter_env where
  "failing_env =
     \<lparr>cast_file = (\<lambda>c. ''/s/recordings/'' @ c), with_suffix = replace_suffix,
      relative_to_recordings = (\<lambda>p. Inr (drop 14 p)),
      agg = (\<lambda>src dst. Inr (1, ''boom''))\<rparr>"

definition working_env :: exporter_env where
  "working_env =
     \<lparr>cast_file = (\<lambda>c. ''/s/recordings/'' @ c), with_suffix = replace_suffix,
      relative_to_recordings = (\<lambda>p. Inr (drop 14 p)),
      agg = (\<lambda>src dst. Inr (0, ''''))\<rparr>"

text \<open>
  An old and a new recording with their files, and a retention policy that keeps
  one recording.
\<close>

definition row_old :: recording where
  "row_old = \<lparr>rec_id = ''old'', atuin_id = None, command = ''ls'', timestamp = 0,
      duration = None, exit_code = Some 0, cwd = ''/tmp'', shell = Some ''zsh'',
      user = Some ''u'', hostname = Some ''h'', cast_path = Some ''old.cast'', gif_path = None,
      screenshot_path = None, meta_path = ''/s/recordings/old.meta.json'', indexed_at = 1\<rparr>"

definition row_new :: recording where
  "row_new = \<lparr>rec_id = ''new'', atuin_id = None, command = ''ls'', timestamp = 9999000,
      duration = None, exit_code = Some 0, cwd = ''/tmp'', shell = Some ''zsh'',
      user = Some ''u'', hostname = Some ''h'', cast_path = Some ''new.cast'', gif_path = None,
      screenshot_path = None, meta_path = ''/s/recordings/new.meta.json'',
      indexed_at = 9999001\<rparr>"

definition old_and_new :: db where
  "old_and_new = \<lparr>recordings = [row_old, row_new], export_queue = [], queue_seq = 0\<rparr>"

definition old_and_new_files :: files where
  "old_and_new_files =
     [(''/s/recordings/old.meta.json'', 100), (''/s/recordings/old.meta.cast'', 900),
      (''/s/recordings/new.meta.json'', 100)]"

definition under_recordings :: "path \<Rightarrow> bool" where
  "under_recordings p \<longleftrightarrow> take 14 p = ''/s/recordings/''"

definition keep_one :: retention_config where
  "keep_one = \<lparr>max_age_days = 30, max_size_gb = 10, max_count = 1,
      cleanup_interval_hours = 24\<rparr>"

text \<open>
  A runtime whose \<open>json.loads\<close> knows two request lines: an unknown action, and
  a \<open>get\<close> whose id is the lone surrogate U+D800.  Its \<open>bind_error\<close> gives what
  the driver raises for that id and for a list or a dictionary.  The examples
  compare no number with a text, so these renderings are placeholders.
\<close>

definition bogus_line :: string where
  "bogus_line = ''{\"action\": \"bogus\"}''"

definition surrogate_id :: string where
  "surrogate_id = [char_of (0xED :: nat), char_of (0xA0 :: nat), char_of (0x80 :: nat)]"

definition surrogate_line :: string where
  "surrogate_line = ''{\"action\": \"get\", \"id\": \"'' @ [CHR 0x5C] @ ''ud800\"}''"

definition surrogate_refused :: string where
  "surrogate_refused =
     [CHR 0x27] @ ''utf-8'' @ [CHR 0x27] @ '' codec can't encode character ''
       @ [CHR 0x27, CHR 0x5C] @ ''ud800'' @ [CHR 0x27]
       @ '' in position 0: surrogates not allowed''"

definition example_loads :: "string \<Rightarrow> exn + json" where
  "example_loads data =
     (if data = bogus_line then Inr (JObj [(''action'', JStr ''bogus'')])
      else if data = surrogate_line
      then Inr (JObj [(''action'', JStr ''get''), (''id'', JStr surrogate_id)])
      else Inl (JSONDecodeError ''Expecting value: line 1 column 1 (char 0)''))"

definition example_bind_error :: "json \<Rightarrow> exn" where
  "example_bind_error v =
     (case v of
        JStr s \<Rightarrow> UnicodeEncodeError surrogate_refused
      | _ \<Rightarrow> ProgrammingError
               (''Error binding parameter 1: type '' @ [CHR 0x27] @ type_name v @ [CHR 0x27]
                  @ '' is not supported''))"

definition example_runtime :: runtime where
  "example_runtime =
     \<lparr>json_loads = example_loads, py_repr = (\<lambda>v. ''<'' @ type_name v @ ''>''),
      bind_error = example_bind_error,
      int_text = (\<lambda>n. ''<int>''), real_text = (\<lambda>x. ''<float>''),
      limit_value = (\<lambda>v. Inl (IntegrityError ''datatype mismatch''))\<rparr>"

section \<open>Indexing the same file twice\<close>

lemma filter_id_insert_or_replace:
  "filter (\<lambda>r. rec_id r = rec_id new) (insert_or_replace new rows) = [new]"
proof -
  have "filter (\<lambda>r. rec_id r = rec_id new) (filter (\<lambda>old. \<not> conflicts new old) rows) = []"
    by (auto simp: filter_empty_conv conflicts_def)
  then show ?thesis
    by (simp add: insert_or_replace_def)
qed

lemma index_recording_Inr:
  assumes "index_recording rd val t p d = Inr d'"
  shows "\<exists>content meta. rd p = Inr content \<and> val content = Inr meta \<and>
           d' = d\<lparr>recordings := insert_or_replace (row_of meta p t) (recordings d)\<rparr>"
  using assms by (auto simp: index_recording_def split: sum.splits if_splits)

text \<open>
  Claim C1, as the code has it.  Indexing a metadata file and indexing it again
  leaves exactly one row for its identifier.  Every field of that row is taken from
  the file, and its \<open>indexed_at\<close> is the clock of the second indexing: the
  replacement writes a new row, whose \<open>indexed_at\<close> takes the default again.  After
  the first indexing the one row carried the clock of the first indexing.
\<close>

theorem index_twice_one_row_latest_time:
  assumes "index_recording rd val t1 p d = Inr d1"
      and "index_recording rd val t2 p d1 = Inr d2"
  shows "\<exists>content meta. rd p = Inr content \<and> val content = Inr meta \<and>
           filter (\<lambda>r. rec_id r = md_id meta) (recordings d1) = [row_of meta p t1] \<and>
           filter (\<lambda>r. rec_id r = md_id meta) (recordings d2) = [row_of meta p t2] \<and>
           indexed_at (row_of meta p t2) = t2"
proof -
  from index_recording_Inr [OF assms(1)] obtain content meta where
    m: "rd p = Inr content" "val content = Inr meta"
       "d1 = d\<lparr>recordings := insert_or_replace (row_of meta p t1) (recordings d)\<rparr>"
    by blast
  from index_recording_Inr [OF assms(2)] m(1,2)
  have m2: "d2 = d1\<lparr>recordings := insert_or_replace (row_of meta p t2) (recordings d1)\<rparr>"
    by auto
  have i: "\<And>t. rec_id (row_of meta p t) = md_id meta"
    by (simp add: row_of_def)
  from filter_id_insert_or_replace [of "row_of meta p t1" "recordings d"] m(3) i
  have "filter (\<lambda>r. rec_id r = md_id meta) (recordings d1) = [row_of meta p t1]"
    by simp
  moreover from filter_id_insert_or_replace [of "row_of meta p t2" "recordings d1"] m2 i
  have "filter (\<lambda>r. rec_id r = md_id meta) (recordings d2) = [row_of meta p t2]"
    by simp
  moreover have "indexed_at (row_of meta p t2) = t2"
    by (simp add: row_of_def)
  ultimately show ?thesis using m(1,2) by blast
qed

text \<open>The theorem at the example file, indexed at 100 and again at 200.\<close>

theorem index_twice_one_row_latest_time_witness:
  "index_recording example_read example_validate 100 ''/r/rec1.meta.json'' empty_db
     = Inr (empty_db\<lparr>recordings := [row_of example_metadata ''/r/rec1.meta.json'' 100]\<rparr>) \<and>
   index_recording example_read example_validate 200 ''/r/rec1.meta.json''
       (empty_db\<lparr>recordings := [row_of example_metadata ''/r/rec1.meta.json'' 100]\<rparr>)
     = Inr (empty_db\<lparr>recordings := [row_of example_metadata ''/r/rec1.meta.json'' 200]\<rparr>) \<and>
   (\<exists>content meta. example_read ''/r/rec1.meta.json'' = Inr content \<and>
      example_validate content = Inr meta \<and>
      filter (\<lambda>r. rec_id r = md_id meta)
        (recordings (empty_db\<lparr>recordings := [row_of example_metadata ''/r/rec1.meta.json'' 100]\<rparr>))
        = [row_of meta ''/r/rec1.meta.json'' 100] \<and>
      filter (\<lambda>r. rec_id r = md_id meta)
        (recordings (empty_db\<lparr>recordings := [row_of example_metadata ''/r/rec1.meta.json'' 200]\<rparr>))
        = [row_of meta ''/r/rec1.meta.json'' 200] \<and>
      indexed_at (row_of meta ''/r/rec1.meta.json'' 200) = 200)"
proof -
  have a: "index_recording example_read example_validate 100 ''/r/rec1.meta.json'' empty_db
     = Inr (empty_db\<lparr>recordings := [row_of example_metadata ''/r/rec1.meta.json'' 100]\<rparr>)"
    by (simp add: index_recording_def example_read_def example_validate_def empty_db_def
        insert_or_replace_def example_metadata_def bound_float_def int64_def)
  have b: "index_recording example_read example_validate 200 ''/r/rec1.meta.json''
       (empty_db\<lparr>recordings := [row_of example_metadata ''/r/rec1.meta.json'' 100]\<rparr>)
     = Inr (empty_db\<lparr>recordings := [row_of example_metadata ''/r/rec1.meta.json'' 200]\<rparr>)"
    by (simp add: index_recording_def example_read_def example_validate_def empty_db_def
        insert_or_replace_def conflicts_def row_of_def example_metadata_def bound_float_def
        int64_def)
  from index_twice_one_row_latest_time [OF a b] a b show ?thesis
    by (intro conjI)
qed

text \<open>
  Claim C1 as stated fails: the file indexed at 100 and again at 200 has
  \<open>indexed_at = 200\<close> afterwards, not the 100 of the first insertion.
\<close>

theorem reindex_resets_indexed_at_counterexample:
  "index_recording example_read example_validate 100 ''/r/rec1.meta.json'' empty_db
     = Inr (empty_db\<lparr>recordings := [row_of example_metadata ''/r/rec1.meta.json'' 100]\<rparr>) \<and>
   index_recording example_read example_validate 200 ''/r/rec1.meta.json''
       (empty_db\<lparr>recordings := [row_of example_metadata ''/r/rec1.meta.json'' 100]\<rparr>)
     = Inr (empty_db\<lparr>recordings := [row_of example_metadata ''/r/rec1.meta.json'' 200]\<rparr>) \<and>
   indexed_at (row_of example_metadata ''/r/rec1.meta.json'' 100) = 100 \<and>
   indexed_at (row_of example_metadata ''/r/rec1.meta.json'' 200) = 200 \<and>
   indexed_at (row_of example_metadata ''/r/rec1.meta.json'' 200)
     \<noteq> indexed_at (row_of example_metadata ''/r/rec1.meta.json'' 100)"
  by (simp add: index_recording_def example_read_def example_validate_def empty_db_def
      insert_or_replace_def conflicts_def row_of_def example_metadata_def bound_float_def
      int64_def)

section \<open>Listing\<close>

lemma sorted_wrt_limit_offset:
  "sorted_wrt P xs \<Longrightarrow> sorted_wrt P (limit_offset lmt ofs xs)"
  by (simp add: limit_offset_def Let_def sorted_wrt_take sorted_wrt_drop)

lemma set_limit_offset: "set (limit_offset lmt ofs xs) \<subseteq> set xs"
  by (auto simp: limit_offset_def Let_def dest: in_set_takeD in_set_dropD)

lemma limit_offset_all: "lmt < 0 \<Longrightarrow> ofs \<le> 0 \<Longrightarrow> limit_offset lmt ofs xs = xs"
  by (simp add: limit_offset_def)

lemma order_by_timestamp_desc_strict:
  assumes "distinct (map timestamp rows)"
  shows "sorted_wrt (\<lambda>a b. timestamp b < timestamp a) (order_by_timestamp_desc rows)"
proof -
  let ?k = "\<lambda>r. - timestamp r"
  let ?s = "sort_key ?k rows"
  from assms have "distinct rows" and "inj_on timestamp (set rows)"
    by (simp_all add: distinct_map)
  then have "distinct (map ?k rows)"
    by (auto simp: distinct_map inj_on_def)
  moreover have "mset (map ?k ?s) = mset (map ?k rows)"
    by simp
  ultimately have "distinct (map ?k ?s)"
    by (metis mset_eq_imp_distinct_iff)
  moreover have "sorted (map ?k ?s)"
    by (rule sorted_sort_key)
  ultimately have "sorted_wrt (<) (map ?k ?s)"
    by (simp add: strict_sorted_iff)
  then show ?thesis
    by (simp add: sorted_wrt_map order_by_timestamp_desc_def)
qed

text \<open>
  Claim C7.  When the timestamps of the indexed recordings are pairwise distinct,
  \<open>list_recordings\<close> without filters returns recordings of the index in strictly
  descending order of timestamp, for every limit and offset; what it returns is the
  window that limit and offset cut out of the complete listing (after the first
  \<open>ofs\<close> rows, the next \<open>lmt\<close> rows, or all of them when \<open>lmt\<close> is negative), and
  the complete listing holds every recording once.
\<close>

theorem list_recordings_strictly_descending:
  assumes "distinct (map timestamp (recordings d))"
  shows "sorted_wrt (\<lambda>a b. timestamp b < timestamp a) (list_recordings lmt ofs False None d) \<and>
         set (list_recordings lmt ofs False None d) \<subseteq> set (recordings d) \<and>
         list_recordings lmt ofs False None d
           = limit_offset lmt ofs (list_recordings (- 1) 0 False None d) \<and>
         mset (list_recordings (- 1) 0 False None d) = mset (recordings d) \<and>
         list_recordings lmt ofs False None d
           = (if lmt < 0 then drop (nat ofs) (list_recordings (- 1) 0 False None d)
              else take (nat lmt) (drop (nat ofs) (list_recordings (- 1) 0 False None d)))"
proof -
  have eq: "\<And>l ofs. list_recordings l ofs False None d
            = limit_offset l ofs (order_by_timestamp_desc (recordings d))"
    by (simp add: list_recordings_def)
  have full: "list_recordings (- 1) 0 False None d = order_by_timestamp_desc (recordings d)"
    by (simp add: eq limit_offset_all)
  have s: "sorted_wrt (\<lambda>a b. timestamp b < timestamp a) (list_recordings lmt ofs False None d)"
    unfolding eq using assms
    by (intro sorted_wrt_limit_offset order_by_timestamp_desc_strict)
  have m: "set (list_recordings lmt ofs False None d) \<subseteq> set (recordings d)"
    unfolding eq using set_limit_offset [of lmt ofs "order_by_timestamp_desc (recordings d)"]
    by (simp add: order_by_timestamp_desc_def)
  have w: "list_recordings lmt ofs False None d
             = limit_offset lmt ofs (list_recordings (- 1) 0 False None d)"
    by (simp only: full) (rule eq)
  have p: "mset (list_recordings (- 1) 0 False None d) = mset (recordings d)"
    by (simp add: full order_by_timestamp_desc_def)
  have t: "list_recordings lmt ofs False None d
             = (if lmt < 0 then drop (nat ofs) (list_recordings (- 1) 0 False None d)
                else take (nat lmt) (drop (nat ofs) (list_recordings (- 1) 0 False None d)))"
    by (subst w) (simp add: limit_offset_def)
  from s m w p t show ?thesis
    by (intro conjI)
qed

lemma row_timestamps [simp]: "timestamp row_a = 10" "timestamp row_b = 20"
  by (simp_all add: row_a_def row_b_def)

text \<open>The theorem at the two example recordings: the newer one comes first.\<close>

theorem list_recordings_strictly_descending_witness:
  "distinct (map timestamp (recordings two_rows)) \<and>
   list_recordings 50 0 False None two_rows = [row_b, row_a] \<and>
   sorted_wrt (\<lambda>a b. timestamp b < timestamp a) (list_recordings 50 0 False None two_rows) \<and>
   list_recordings 1 0 False None two_rows = [row_b] \<and>
   list_recordings 1 1 False None two_rows = [row_a]"
proof -
  have h: "distinct (map timestamp (recordings two_rows))"
    by (simp add: two_rows_def)
  have v: "list_recordings 50 0 False None two_rows = [row_b, row_a]"
    by (simp add: list_recordings_def two_rows_def order_by_timestamp_desc_def limit_offset_def)
  have full: "list_recordings (- 1) 0 False None two_rows = [row_b, row_a]"
    by (simp add: list_recordings_def two_rows_def order_by_timestamp_desc_def limit_offset_def)
  have w0: "list_recordings 1 0 False None two_rows = [row_b]"
    using list_recordings_strictly_descending
      [OF h, of 1 0, THEN conjunct2, THEN conjunct2, THEN conjunct2, THEN conjunct2]
    by (simp add: full)
  have w1: "list_recordings 1 1 False None two_rows = [row_a]"
    using list_recordings_strictly_descending
      [OF h, of 1 1, THEN conjunct2, THEN conjunct2, THEN conjunct2, THEN conjunct2]
    by (simp add: full)
  from list_recordings_strictly_descending [OF h, of 50 0, THEN conjunct1] h v w0 w1
  show ?thesis
    by (intro conjI)
qed

lemma like_ab: "like (''/home/a_'' @ ''%'') ''/home/ab''"
  by (simp add: ascii_upper_def after_char_def)

lemma like_ax: "like (''/home/a_'' @ ''%'') ''/home/a_x''"
  by (simp add: ascii_upper_def after_char_def)

text \<open>
  Claim C5 at the prefix \<open>/home/a_\<close>: the listing contains the recording whose
  working directory is \<open>/home/ab\<close>, of which \<open>/home/a_\<close> is no prefix.  The
  underscore of the argument is read as the wildcard of \<open>LIKE\<close>.
\<close>

theorem list_recordings_cwd_wildcard:
  "list_recordings 50 0 False (Some ''/home/a_'') two_rows = [row_b, row_a] \<and>
   cwd row_a = ''/home/ab'' \<and> \<not> prefix ''/home/a_'' (cwd row_a)"
  using like_ab like_ax
  by (simp add: list_recordings_def two_rows_def order_by_timestamp_desc_def limit_offset_def
      row_a_def row_b_def)

section \<open>Claiming a job\<close>

lemma in_pending_joined:
  "(j, r) \<in> set (pending_joined d) \<longleftrightarrow>
     j \<in> set (export_queue d) \<and> status j = Pending \<and>
     r \<in> set (recordings d) \<and> rec_id r = recording_id j"
  by (auto simp: pending_joined_def)

lemma sort_key_head_least:
  assumes "sort_key f xs = y # ys" and "x \<in> set xs"
  shows "f y \<le> f x"
proof -
  have "sorted (map f (sort_key f xs))"
    by (rule sorted_sort_key)
  with assms(1) have "\<forall>z \<in> set ys. f y \<le> f z"
    by simp
  moreover from assms have "x \<in> set (y # ys)"
    by (metis set_sort)
  ultimately show ?thesis
    by auto
qed

lemma select_next_None:
  "select_next d = None \<longleftrightarrow> pending_joined d = []"
proof -
  have "sort_key (\<lambda>jr. created_at (fst jr)) (pending_joined d) = [] \<longleftrightarrow> pending_joined d = []"
    by (metis set_sort set_empty)
  then show ?thesis
    by (cases "sort_key (\<lambda>jr. created_at (fst jr)) (pending_joined d)")
       (simp_all add: select_next_def)
qed

lemma select_next_Some:
  assumes "select_next d = Some (j, r)"
  shows "(j, r) \<in> set (pending_joined d)"
    and "\<And>j' r'. (j', r') \<in> set (pending_joined d) \<Longrightarrow> created_at j \<le> created_at j'"
proof -
  from assms obtain rest where
    s: "sort_key (\<lambda>jr. created_at (fst jr)) (pending_joined d) = (j, r) # rest"
    by (auto simp: select_next_def split: list.splits)
  then have "(j, r) \<in> set (sort_key (\<lambda>jr. created_at (fst jr)) (pending_joined d))"
    by simp
  then show "(j, r) \<in> set (pending_joined d)"
    by simp
  fix j' r'
  assume "(j', r') \<in> set (pending_joined d)"
  from sort_key_head_least [OF s this] show "created_at j \<le> created_at j'"
    by simp
qed

lemma pending_joined_empty: "pending_joined d = [] \<longleftrightarrow> (\<forall>j. \<not> claimable d j)"
proof
  assume e: "pending_joined d = []"
  show "\<forall>j. \<not> claimable d j"
  proof (intro allI notI)
    fix j assume "claimable d j"
    then obtain r where "(j, r) \<in> set (pending_joined d)"
      by (auto simp: claimable_def in_pending_joined)
    with e show False by simp
  qed
next
  assume n: "\<forall>j. \<not> claimable d j"
  show "pending_joined d = []"
  proof (rule ccontr)
    assume "pending_joined d \<noteq> []"
    then obtain j r where "(j, r) \<in> set (pending_joined d)"
      by (cases "pending_joined d") auto
    then have "claimable d j"
      by (auto simp: claimable_def in_pending_joined)
    with n show False by simp
  qed
qed

text \<open>
  Claim C3, as the code has it.  The claim step returns nothing exactly when no
  pending job has its recording in the index.  Otherwise it returns the fields of a
  pending job whose recording is indexed and whose creation time is earliest among
  the pending jobs whose recording is indexed, with the \<open>cast_path\<close> of that
  recording, and it marks the job of that id \<open>processing\<close>, changing nothing else.
\<close>

theorem claim_oldest_pending_with_recording:
  "(claim d = None \<longleftrightarrow> (\<forall>j. \<not> claimable d j)) \<and>
   (\<forall>qid rid et cp d'. claim d = Some ((qid, rid, et, cp), d') \<longrightarrow>
      (\<exists>j r. claimable d j \<and> r \<in> set (recordings d) \<and> rec_id r = rid \<and>
         job_id j = qid \<and> recording_id j = rid \<and> export_type j = et \<and> cast_path r = cp \<and>
         (\<forall>j'. claimable d j' \<longrightarrow> created_at j \<le> created_at j')) \<and>
      recordings d' = recordings d \<and>
      export_queue d'
        = map (\<lambda>q. if job_id q = qid then q\<lparr>status := Processing\<rparr> else q) (export_queue d))"
proof (intro conjI allI impI)
  have "claim d = None \<longleftrightarrow> select_next d = None"
    by (cases "select_next d") (auto simp: claim_def)
  then show "claim d = None \<longleftrightarrow> (\<forall>j. \<not> claimable d j)"
    by (simp only: select_next_None pending_joined_empty)
next
  fix qid rid et cp d'
  assume c: "claim d = Some ((qid, rid, et, cp), d')"
  then obtain j r where
    s: "select_next d = Some (j, r)" and
    f: "qid = job_id j" "rid = recording_id j" "et = export_type j" "cp = cast_path r" and
    d': "d' = update_job (job_id j) (\<lambda>q. q\<lparr>status := Processing\<rparr>) d"
    by (auto simp: claim_def split: option.splits)
  from select_next_Some(1) [OF s] have m: "j \<in> set (export_queue d)" "status j = Pending"
      "r \<in> set (recordings d)" "rec_id r = recording_id j"
    by (simp_all add: in_pending_joined)
  have least: "\<forall>j'. claimable d j' \<longrightarrow> created_at j \<le> created_at j'"
  proof (intro allI impI)
    fix j' assume "claimable d j'"
    then obtain r' where "(j', r') \<in> set (pending_joined d)"
      by (auto simp: claimable_def in_pending_joined)
    from select_next_Some(2) [OF s this] show "created_at j \<le> created_at j'" .
  qed
  from m have "claimable d j"
    by (auto simp: claimable_def)
  with m f least
  show "\<exists>j r. claimable d j \<and> r \<in> set (recordings d) \<and> rec_id r = rid \<and>
         job_id j = qid \<and> recording_id j = rid \<and> export_type j = et \<and> cast_path r = cp \<and>
         (\<forall>j'. claimable d j' \<longrightarrow> created_at j \<le> created_at j')"
    by (intro exI [of _ j] exI [of _ r]) simp
  show "recordings d' = recordings d"
    by (simp add: d' update_job_def)
  show "export_queue d'
        = map (\<lambda>q. if job_id q = qid then q\<lparr>status := Processing\<rparr> else q) (export_queue d)"
    by (simp add: d' f update_job_def)
qed

lemma claim_queue_db:
  "claim queue_db = Some ((2, ''a'', ''gif'', Some ''a.cast''),
     queue_db\<lparr>export_queue := [job_orphan, job_a\<lparr>status := Processing\<rparr>]\<rparr>)"
  by (simp add: claim_def select_next_def pending_joined_def update_job_def queue_db_def
      job_orphan_def job_a_def row_a_def)

text \<open>
  The theorem at a queue of two pending jobs: the older one has no recording and
  is not claimable, the newer one is claimed.
\<close>

theorem claim_oldest_pending_with_recording_witness:
  "claim queue_db = Some ((2, ''a'', ''gif'', Some ''a.cast''),
     queue_db\<lparr>export_queue := [job_orphan, job_a\<lparr>status := Processing\<rparr>]\<rparr>) \<and>
   claimable queue_db job_a \<and> \<not> claimable queue_db job_orphan \<and>
   (\<exists>j r. claimable queue_db j \<and> r \<in> set (recordings queue_db) \<and> rec_id r = ''a'' \<and>
         job_id j = 2 \<and> recording_id j = ''a'' \<and> export_type j = ''gif'' \<and>
         cast_path r = Some ''a.cast'' \<and>
         (\<forall>j'. claimable queue_db j' \<longrightarrow> created_at j \<le> created_at j'))"
proof -
  have a: "claimable queue_db job_a"
    by (simp add: claimable_def queue_db_def job_a_def row_a_def)
  have b: "\<not> claimable queue_db job_orphan"
    by (simp add: claimable_def queue_db_def job_orphan_def row_a_def)
  from claim_oldest_pending_with_recording [of queue_db] claim_queue_db a b
  show ?thesis by blast
qed

text \<open>
  Claim C3 as stated fails on the same queue: job 1 is pending and older than job 2,
  and the claim step takes job 2.
\<close>

theorem claim_skips_older_orphan_counterexample:
  "claim queue_db = Some ((2, ''a'', ''gif'', Some ''a.cast''),
     queue_db\<lparr>export_queue := [job_orphan, job_a\<lparr>status := Processing\<rparr>]\<rparr>) \<and>
   export_queue queue_db = [job_orphan, job_a] \<and>
   status job_orphan = Pending \<and> job_id job_orphan = 1 \<and>
   created_at job_orphan < created_at job_a"
  by (simp add: claim_def select_next_def pending_joined_def update_job_def queue_db_def
      job_orphan_def job_a_def row_a_def)

section \<open>One worker cycle\<close>

text \<open>
  Claim C4 at a pending \<open>gif\<close> job whose rendering fails with return code 1: after
  the cycle the job is \<open>failed\<close> with the error text, and its \<open>completed_at\<close> is
  still NULL.  The recording is as before.
\<close>

theorem failed_job_has_no_completion_time:
  "process_next failing_env 500 (queue_db\<lparr>export_queue := [job_a]\<rparr>)
     = queue_db\<lparr>export_queue :=
         [job_a\<lparr>status := Failed, error := Some ''agg failed: boom''\<rparr>]\<rparr> \<and>
   completed_at (job_a\<lparr>status := Failed, error := Some ''agg failed: boom''\<rparr>) = None"
  by (simp add: process_next_def claim_def select_next_def pending_joined_def update_job_def
      queue_db_def job_a_def row_a_def generate_gif_def failing_env_def)

text \<open>
  Claim C10.  When the job that a cycle claims is of a kind other than \<open>gif\<close>, the
  cycle leaves the recordings as they are and sets \<open>done\<close> and the completion time
  on the job of that id, and on no other job.  The result does not depend on the
  surroundings \<open>env\<close>, so no rendering takes part in it.
\<close>

theorem non_gif_job_done_without_render:
  assumes "select_next d = Some (j, r)" and "export_type j \<noteq> ''gif''"
  shows "recordings (process_next env now d) = recordings d \<and>
         queue_seq (process_next env now d) = queue_seq d \<and>
         export_queue (process_next env now d)
           = map (\<lambda>q. if job_id q = job_id j then q\<lparr>status := Done, completed_at := Some now\<rparr>
                       else q) (export_queue d)"
  using assms by (simp add: process_next_def claim_def update_job_def comp_def)

text \<open>The theorem at a pending \<open>png\<close> job.\<close>

theorem non_gif_job_done_without_render_witness:
  "select_next png_db = Some (job_png, row_a) \<and> export_type job_png \<noteq> ''gif'' \<and>
   recordings (process_next failing_env 700 png_db) = recordings png_db \<and>
   export_queue (process_next failing_env 700 png_db)
     = [job_png\<lparr>status := Done, completed_at := Some 700\<rparr>]"
proof -
  have s: "select_next png_db = Some (job_png, row_a)"
    by (simp add: select_next_def pending_joined_def png_db_def job_png_def row_a_def)
  have t: "export_type job_png \<noteq> ''gif''"
    by (simp add: job_png_def)
  have q: "export_queue png_db = [job_png]"
    by (simp add: png_db_def)
  from non_gif_job_done_without_render [OF s t, of failing_env 700] s t q
  show ?thesis by simp
qed

section \<open>Jobs of a deleted recording\<close>

lemma update_job_recordings: "recordings (update_job qid f d) = recordings d"
  by (simp add: update_job_def)

lemma update_job_ids:
  assumes "\<And>q. job_id (f q) = job_id q"
  shows "map job_id (export_queue (update_job qid f d)) = map job_id (export_queue d)"
  using assms by (simp add: update_job_def comp_def)

lemma update_job_other:
  assumes "j \<in> set (export_queue d)" and "job_id j \<noteq> qid"
  shows "j \<in> set (export_queue (update_job qid f d))"
proof -
  have "j \<in> (\<lambda>q. if job_id q = qid then f q else q) ` set (export_queue d)"
    by (rule image_eqI [where x = j]) (simp_all add: assms)
  then show ?thesis
    by (simp add: update_job_def)
qed

lemma orphaned_update_job:
  assumes "orphaned rid j d" and "job_id j \<noteq> qid" and "\<And>q. job_id (f q) = job_id q"
  shows "orphaned rid j (update_job qid f d)"
proof -
  from assms(1) have "j \<in> set (export_queue d)"
    by (simp add: orphaned_def)
  then have "j \<in> set (export_queue (update_job qid f d))"
    using assms(2) by (rule update_job_other)
  moreover have "map job_id (export_queue (update_job qid f d)) = map job_id (export_queue d)"
    using assms(3) by (rule update_job_ids)
  ultimately show ?thesis
    using assms(1) by (simp add: orphaned_def update_job_recordings)
qed

lemma generate_gif_Inr:
  assumes "generate_gif env rid' cp d = Inr d'"
  shows "export_queue d' = export_queue d \<and> map rec_id (recordings d') = map rec_id (recordings d)"
  using assms
  by (auto simp: generate_gif_def Let_def comp_def split: option.splits sum.splits if_splits)

lemma orphaned_generate_gif:
  assumes "orphaned rid j d" and "generate_gif env rid' cp d = Inr d'"
  shows "orphaned rid j d'"
proof -
  from generate_gif_Inr [OF assms(2)]
  have q: "export_queue d' = export_queue d"
    and i: "map rec_id (recordings d') = map rec_id (recordings d)"
    by simp_all
  from i have "rec_id ` set (recordings d') = rec_id ` set (recordings d)"
    by (metis set_map)
  with assms(1) have "\<forall>r \<in> set (recordings d'). rec_id r \<noteq> rid"
    unfolding orphaned_def by (metis imageE imageI)
  with assms(1) q show ?thesis
    by (simp add: orphaned_def)
qed

lemma orphaned_not_selected:
  assumes "orphaned rid j d" and "select_next d = Some (j', r')"
  shows "job_id j' \<noteq> job_id j"
proof
  assume e: "job_id j' = job_id j"
  from select_next_Some(1) [OF assms(2)]
  have m: "j' \<in> set (export_queue d)" "r' \<in> set (recordings d)" "rec_id r' = recording_id j'"
    by (simp_all add: in_pending_joined)
  from assms(1) have "distinct (map job_id (export_queue d))" "j \<in> set (export_queue d)"
    by (simp_all add: orphaned_def)
  with m(1) e have "j' = j"
    by (meson distinct_map inj_onD)
  with m(2,3) assms(1) show False
    by (auto simp: orphaned_def)
qed

lemma orphaned_process_next:
  assumes "orphaned rid j d"
  shows "orphaned rid j (process_next env now d)"
proof (cases "select_next d")
  case None
  then show ?thesis
    using assms by (simp add: process_next_def claim_def)
next
  case (Some jr)
  obtain j' r' where jr: "jr = (j', r')"
    by (cases jr)
  with Some have s: "select_next d = Some (j', r')"
    by simp
  from orphaned_not_selected [OF assms s] have ne: "job_id j \<noteq> job_id j'"
    by simp
  let ?d1 = "update_job (job_id j') (\<lambda>q. q\<lparr>status := Processing\<rparr>) d"
  have o1: "orphaned rid j ?d1"
    by (rule orphaned_update_job [OF assms ne]) simp
  show ?thesis
  proof (cases "if export_type j' = ''gif''
                then generate_gif env (recording_id j') (cast_path r') ?d1 else Inr ?d1")
    case (Inl e)
    have "orphaned rid j
            (update_job (job_id j') (\<lambda>q. q\<lparr>status := Failed, error := Some (exn_text e)\<rparr>) ?d1)"
      by (rule orphaned_update_job [OF o1 ne]) simp
    with s Inl show ?thesis
      by (simp add: process_next_def claim_def)
  next
    case (Inr d2)
    then have "orphaned rid j d2"
      using o1 orphaned_generate_gif [of rid j ?d1 env "recording_id j'" "cast_path r'" d2]
      by (simp split: if_splits)
    then have "orphaned rid j
            (update_job (job_id j') (\<lambda>q. q\<lparr>status := Done, completed_at := Some now\<rparr>) d2)"
      by (rule orphaned_update_job [OF _ ne]) simp
    with s Inr show ?thesis
      by (simp add: process_next_def claim_def)
  qed
qed

lemma orphaned_worker_cycles:
  "orphaned rid j d \<Longrightarrow> orphaned rid j (worker_cycles cs d)"
proof (induction cs arbitrary: d)
  case Nil
  then show ?case by simp
next
  case (Cons c cs)
  obtain env now where c: "c = (env, now)"
    by (cases c)
  from Cons.prems have "orphaned rid j (process_next env now d)"
    by (rule orphaned_process_next)
  then have "orphaned rid j (worker_cycles cs (process_next env now d))"
    by (rule Cons.IH)
  then show ?case
    by (simp add: c)
qed

lemma orphaned_not_claimed:
  assumes "orphaned rid j d" and "claim d = Some ((qid, row), d')"
  shows "qid \<noteq> job_id j"
proof -
  from assms(2) obtain j' r' where "select_next d = Some (j', r')" and "qid = job_id j'"
    by (auto simp: claim_def split: option.splits)
  with orphaned_not_selected [OF assms(1)] show ?thesis
    by simp
qed

text \<open>
  Claim C9.  \<open>delete_recording\<close> removes the rows of that id from \<open>recordings\<close>
  and leaves the export queue as it is.  A pending job for the deleted recording is
  still in the queue, unchanged and so still pending, after any number of worker
  cycles, and the claim step after those cycles never returns its id.  Job ids are
  unique, as the primary key makes them.
\<close>

theorem orphaned_job_never_claimed:
  assumes "distinct (map job_id (export_queue d))"
      and "j \<in> set (export_queue d)" and "status j = Pending" and "recording_id j = rid"
  shows "export_queue (snd (delete_recording rid d)) = export_queue d \<and>
         recordings (snd (delete_recording rid d))
           = filter (\<lambda>r. rec_id r \<noteq> rid) (recordings d) \<and>
         j \<in> set (export_queue (worker_cycles cs (snd (delete_recording rid d)))) \<and>
         (\<forall>qid row d'. claim (worker_cycles cs (snd (delete_recording rid d)))
                          = Some ((qid, row), d') \<longrightarrow> qid \<noteq> job_id j)"
proof -
  let ?d0 = "snd (delete_recording rid d)"
  have q: "export_queue ?d0 = export_queue d"
    and r: "recordings ?d0 = filter (\<lambda>r. rec_id r \<noteq> rid) (recordings d)"
    by (simp_all add: delete_recording_def)
  from assms q r have "orphaned rid j ?d0"
    by (simp add: orphaned_def)
  then have o: "orphaned rid j (worker_cycles cs ?d0)"
    by (rule orphaned_worker_cycles)
  then have "j \<in> set (export_queue (worker_cycles cs ?d0))"
    by (simp add: orphaned_def)
  moreover from o have "\<forall>qid row d'. claim (worker_cycles cs ?d0) = Some ((qid, row), d')
                          \<longrightarrow> qid \<noteq> job_id j"
    using orphaned_not_claimed by blast
  ultimately show ?thesis
    using q r by (intro conjI)
qed

lemma cycle_after_delete:
  "worker_cycles [(working_env, 500)] (snd (delete_recording ''b'' two_jobs_db))
     = \<lparr>recordings = [row_a\<lparr>gif_path := Some ''a.gif''\<rparr>],
        export_queue = [job_b, job_a\<lparr>status := Done, completed_at := Some 500\<rparr>],
        queue_seq = 2\<rparr>"
  by (simp add: process_next_def claim_def select_next_def pending_joined_def update_job_def
      two_jobs_db_def job_a_def job_b_def row_a_def row_b_def generate_gif_def working_env_def
      delete_recording_def replace_suffix_def)

text \<open>
  The theorem at two jobs, after the recording of the first is deleted: a cycle
  renders for the second job and leaves the first pending.
\<close>

theorem orphaned_job_never_claimed_witness:
  "distinct (map job_id (export_queue two_jobs_db)) \<and> job_b \<in> set (export_queue two_jobs_db) \<and>
   status job_b = Pending \<and> recording_id job_b = ''b'' \<and>
   worker_cycles [(working_env, 500)] (snd (delete_recording ''b'' two_jobs_db))
     = \<lparr>recordings = [row_a\<lparr>gif_path := Some ''a.gif''\<rparr>],
        export_queue = [job_b, job_a\<lparr>status := Done, completed_at := Some 500\<rparr>],
        queue_seq = 2\<rparr> \<and>
   job_b \<in> set (export_queue
      (worker_cycles [(working_env, 500)] (snd (delete_recording ''b'' two_jobs_db))))"
proof -
  have h: "distinct (map job_id (export_queue two_jobs_db))"
    "job_b \<in> set (export_queue two_jobs_db)" "status job_b = Pending"
    "recording_id job_b = ''b''"
    by (simp_all add: two_jobs_db_def job_a_def job_b_def)
  from orphaned_job_never_claimed [OF h, of "[(working_env, 500)]"] h cycle_after_delete
  show ?thesis
    by (intro conjI) blast+
qed

section \<open>A dry run of the cleanup\<close>

lemma delete_pass_dry_run:
  "delete_pass suffixed True rows st = st\<lparr>deleted_count := deleted_count st + length rows\<rparr>"
  by (induction rows arbitrary: st) auto

lemma size_pass_dry_run:
  "disk (size_pass suffixed True max_bytes rows current_size st) = disk st \<and>
   index (size_pass suffixed True max_bytes rows current_size st) = index st \<and>
   freed_bytes (size_pass suffixed True max_bytes rows current_size st) = freed_bytes st"
  by (induction rows arbitrary: st) auto

lemma run_cleanup_dry_run_keeps_state:
  "disk (run_cleanup suffixed in_recordings cfg now True st0) = fst st0 \<and>
   index (run_cleanup suffixed in_recordings cfg now True st0) = snd st0 \<and>
   freed_bytes (run_cleanup suffixed in_recordings cfg now True st0) = 0"
  by (simp add: run_cleanup_def Let_def delete_pass_dry_run size_pass_dry_run)

text \<open>
  Claim C2 at an old and a new recording, with a policy of 30 days that keeps one
  recording.  The dry run leaves files and rows as they are and reports 2
  deletions and 0 bytes; the real run on the same state deletes the old recording
  only and reports 1 deletion and 1000 bytes.
\<close>

theorem dry_run_totals_differ:
  "run_cleanup replace_suffix under_recordings keep_one 10000000 True
       (old_and_new_files, old_and_new)
     = \<lparr>deleted_count = 2, freed_bytes = 0, disk = old_and_new_files, index = old_and_new\<rparr> \<and>
   run_cleanup replace_suffix under_recordings keep_one 10000000 False
       (old_and_new_files, old_and_new)
     = \<lparr>deleted_count = 1, freed_bytes = 1000,
        disk = [(''/s/recordings/new.meta.json'', 100)],
        index = old_and_new\<lparr>recordings := [row_new]\<rparr>\<rparr>"
  by (simp add: run_cleanup_def Let_def keep_one_def old_and_new_def old_and_new_files_def
      row_old_def row_new_def id_and_meta_path_def limit_offset_def order_by_timestamp_desc_def
      calculate_storage_size_def under_recordings_def delete_recording_files_def
      unlink_counted_def delete_recording_def replace_suffix_def)

section \<open>Answering a client\<close>



lemma handle_client_process_error:
  "json_loads rt data = Inr message \<Longrightarrow>
   process_message rt sfx inr cfg now message st = Inl e \<Longrightarrow>
   handle_client rt sfx inr cfg now (Inr data) st
     = (\<lparr>written = [JObj [(''error'', JStr (exn_text e))]], closed = True\<rparr>, st)"
  by (simp add: handle_client_def)









text \<open>
  Claim C8, as the code has it.  Take a \<open>get\<close> request whose \<open>id\<close> the driver
  binds, and let \<open>i\<close> be the text that the bound value is compared as; for a
  string without surrogates that is the string itself.  If a recording has the id
  \<open>i\<close>, the response holds the first such recording, whatever the atuin ids are;
  if none has, and a recording has the atuin id \<open>i\<close>, the response holds the first
  such recording; if neither, the response is \<open>{"recording": None}\<close>, a response
  and not an exception.  An \<open>id\<close> that is bound as NULL gives \<open>{"recording": None}\<close>
  as well.  An \<open>id\<close> that the driver refuses to bind makes the lookup raise what
  the driver raises.  The state is unchanged.
\<close>

theorem get_primary_id_then_atuin_id_when_bound:
  assumes "dict_get kvs ''action'' JNull = JStr ''get''"
  shows "(\<forall>i. dict_get kvs ''id'' JNull = JStr i \<longrightarrow> \<not> has_surrogate i \<longrightarrow>
            sql_bind rt (dict_get kvs ''id'' JNull) = Inr (SqlText i) \<and>
            as_text rt (SqlText i) = Some i) \<and>
         (\<forall>v i. sql_bind rt (dict_get kvs ''id'' JNull) = Inr v \<longrightarrow> as_text rt v = Some i \<longrightarrow>
            (\<forall>r. find (\<lambda>r. rec_id r = i) (recordings (snd st)) = Some r \<longrightarrow>
               process_message rt sfx inr cfg now (JObj kvs) st
                 = Inr (JObj [(''recording'', model_dump r)], st)) \<and>
            (\<forall>r. (\<forall>r' \<in> set (recordings (snd st)). rec_id r' \<noteq> i) \<longrightarrow>
               find (\<lambda>r. atuin_id r = Some i) (recordings (snd st)) = Some r \<longrightarrow>
               process_message rt sfx inr cfg now (JObj kvs) st
                 = Inr (JObj [(''recording'', model_dump r)], st)) \<and>
            ((\<forall>r' \<in> set (recordings (snd st)). rec_id r' \<noteq> i \<and> atuin_id r' \<noteq> Some i) \<longrightarrow>
               process_message rt sfx inr cfg now (JObj kvs) st
                 = Inr (JObj [(''recording'', JNull)], st))) \<and>
         (\<forall>v. sql_bind rt (dict_get kvs ''id'' JNull) = Inr v \<longrightarrow> as_text rt v = None \<longrightarrow>
            process_message rt sfx inr cfg now (JObj kvs) st
              = Inr (JObj [(''recording'', JNull)], st)) \<and>
         (\<forall>e. sql_bind rt (dict_get kvs ''id'' JNull) = Inl e \<longrightarrow>
            process_message rt sfx inr cfg now (JObj kvs) st = Inl e)"
proof -
  have pm: "process_message rt sfx inr cfg now (JObj kvs) st
      = (case do_get rt kvs (snd st) of Inl e \<Rightarrow> Inl e | Inr resp \<Rightarrow> Inr (resp, st))"
    using assms by (simp add: process_message_def)
  have refused: "process_message rt sfx inr cfg now (JObj kvs) st = Inl e"
    if "sql_bind rt (dict_get kvs ''id'' JNull) = Inl e" for e
    using that by (simp add: pm do_get_def)
  have null: "process_message rt sfx inr cfg now (JObj kvs) st
                = Inr (JObj [(''recording'', JNull)], st)"
    if "sql_bind rt (dict_get kvs ''id'' JNull) = Inr v" and "as_text rt v = None" for v
    using that by (simp add: pm do_get_def)
  have dg: "do_get rt kvs (snd st)
      = (case (case get_by_id i (snd st) of None \<Rightarrow> get_by_atuin_id i (snd st) | Some r \<Rightarrow> Some r)
         of Some r \<Rightarrow> Inr (JObj [(''recording'', model_dump r)])
          | None \<Rightarrow> Inr (JObj [(''recording'', JNull)]))"
    if "sql_bind rt (dict_get kvs ''id'' JNull) = Inr v" and "as_text rt v = Some i" for v i
    using that by (cases "get_by_id i (snd st)") (simp_all add: do_get_def)
  have by_id: "process_message rt sfx inr cfg now (JObj kvs) st
                 = Inr (JObj [(''recording'', model_dump r)], st)"
    if "sql_bind rt (dict_get kvs ''id'' JNull) = Inr v" and "as_text rt v = Some i"
      and "find (\<lambda>r. rec_id r = i) (recordings (snd st)) = Some r" for v i r
    using that(3) by (simp add: pm dg [OF that(1,2)] get_by_id_def)
  have by_atuin: "process_message rt sfx inr cfg now (JObj kvs) st
                 = Inr (JObj [(''recording'', model_dump r)], st)"
    if "sql_bind rt (dict_get kvs ''id'' JNull) = Inr v" and "as_text rt v = Some i"
      and "\<forall>r' \<in> set (recordings (snd st)). rec_id r' \<noteq> i"
      and "find (\<lambda>r. atuin_id r = Some i) (recordings (snd st)) = Some r" for v i r
  proof -
    from that(3) have "find (\<lambda>r. rec_id r = i) (recordings (snd st)) = None"
      by (simp add: find_None_iff)
    with that(4) show ?thesis
      by (simp add: pm dg [OF that(1,2)] get_by_id_def get_by_atuin_id_def)
  qed
  have neither: "process_message rt sfx inr cfg now (JObj kvs) st
                 = Inr (JObj [(''recording'', JNull)], st)"
    if "sql_bind rt (dict_get kvs ''id'' JNull) = Inr v" and "as_text rt v = Some i"
      and "\<forall>r' \<in> set (recordings (snd st)). rec_id r' \<noteq> i \<and> atuin_id r' \<noteq> Some i" for v i
  proof -
    from that(3) have "find (\<lambda>r. rec_id r = i) (recordings (snd st)) = None"
      and "find (\<lambda>r. atuin_id r = Some i) (recordings (snd st)) = None"
      by (simp_all add: find_None_iff)
    then show ?thesis
      by (simp add: pm dg [OF that(1,2)] get_by_id_def get_by_atuin_id_def)
  qed
  have strings: "sql_bind rt (dict_get kvs ''id'' JNull) = Inr (SqlText i) \<and>
                 as_text rt (SqlText i) = Some i"
    if "dict_get kvs ''id'' JNull = JStr i" and "\<not> has_surrogate i" for i
    using that by simp
  from strings by_id by_atuin neither null refused show ?thesis
    by (intro conjI allI impI) blast+
qed

text \<open>
  The theorem at the two example recordings: \<open>a\<close> is an id, \<open>hist-b\<close> is an
  atuin id only, \<open>zzz\<close> is neither.
\<close>

theorem get_primary_id_then_atuin_id_when_bound_witness:
  "process_message example_runtime replace_suffix under_recordings keep_one 10000000
      (JObj [(''action'', JStr ''get''), (''id'', JStr ''a'')]) ([], two_rows)
     = Inr (JObj [(''recording'', model_dump row_a)], [], two_rows) \<and>
   process_message example_runtime replace_suffix under_recordings keep_one 10000000
      (JObj [(''action'', JStr ''get''), (''id'', JStr ''hist-b'')]) ([], two_rows)
     = Inr (JObj [(''recording'', model_dump row_b)], [], two_rows) \<and>
   process_message example_runtime replace_suffix under_recordings keep_one 10000000
      (JObj [(''action'', JStr ''get''), (''id'', JStr ''zzz'')]) ([], two_rows)
     = Inr (JObj [(''recording'', JNull)], [], two_rows) \<and>
   \<not> has_surrogate ''a'' \<and> \<not> has_surrogate ''hist-b'' \<and> \<not> has_surrogate ''zzz''"
proof -
  note t = get_primary_id_then_atuin_id_when_bound
    [of "[(''action'', JStr ''get''), (''id'', JStr _)]" example_runtime "([], two_rows)"
        replace_suffix under_recordings keep_one 10000000, THEN conjunct2, THEN conjunct1,
     rule_format, of _ "SqlText _"]
  have ids: "rec_id row_a = ''a''" "rec_id row_b = ''b''" "atuin_id row_a = None"
    "atuin_id row_b = Some ''hist-b''"
    by (simp_all add: row_a_def row_b_def)
  have s: "\<not> has_surrogate ''a''" "\<not> has_surrogate ''hist-b''" "\<not> has_surrogate ''zzz''"
    by simp_all
  have a: "process_message example_runtime replace_suffix under_recordings keep_one 10000000
      (JObj [(''action'', JStr ''get''), (''id'', JStr ''a'')]) ([], two_rows)
     = Inr (JObj [(''recording'', model_dump row_a)], [], two_rows)"
    using t [of "''a''" "''a''" "''a''", THEN conjunct1] ids s
    by (simp add: dict_get_def two_rows_def)
  have b: "process_message example_runtime replace_suffix under_recordings keep_one 10000000
      (JObj [(''action'', JStr ''get''), (''id'', JStr ''hist-b'')]) ([], two_rows)
     = Inr (JObj [(''recording'', model_dump row_b)], [], two_rows)"
    using t [of "''hist-b''" "''hist-b''" "''hist-b''", THEN conjunct2, THEN conjunct1] ids s
    by (simp add: dict_get_def two_rows_def)
  have c: "process_message example_runtime replace_suffix under_recordings keep_one 10000000
      (JObj [(''action'', JStr ''get''), (''id'', JStr ''zzz'')]) ([], two_rows)
     = Inr (JObj [(''recording'', JNull)], [], two_rows)"
    using t [of "''zzz''" "''zzz''" "''zzz''", THEN conjunct2, THEN conjunct2] ids s
    by (simp add: dict_get_def two_rows_def)
  from a b c s show ?thesis
    by (intro conjI)
qed

lemma surrogate_loads:
  "json_loads example_runtime surrogate_line
     = Inr (JObj [(''action'', JStr ''get''), (''id'', JStr surrogate_id)])"
  by (simp add: example_runtime_def example_loads_def bogus_line_def surrogate_line_def)

lemma surrogate_id_has_surrogate: "has_surrogate surrogate_id"
  by (simp add: surrogate_id_def)

text \<open>
  Claim C8 as stated fails at the request \<open>{"action": "get", "id": "\ud800"}\<close>:
  no recording has that id or atuin id, and the lookup raises when the driver
  binds the id, so the one response is \<open>{"error": ...}\<close> and not
  \<open>{"recording": None}\<close>.
\<close>

theorem get_unbindable_id_is_error_counterexample:
  "json_loads example_runtime surrogate_line
     = Inr (JObj [(''action'', JStr ''get''), (''id'', JStr surrogate_id)]) \<and>
   has_surrogate surrogate_id \<and>
   get_by_id surrogate_id two_rows = None \<and>
   get_by_atuin_id surrogate_id two_rows = None \<and>
   process_message example_runtime replace_suffix under_recordings keep_one 10000000
       (JObj [(''action'', JStr ''get''), (''id'', JStr surrogate_id)]) ([], two_rows)
     = Inl (UnicodeEncodeError surrogate_refused) \<and>
   handle_client example_runtime replace_suffix under_recordings keep_one 10000000
       (Inr surrogate_line) ([], two_rows)
     = (\<lparr>written = [JObj [(''error'', JStr surrogate_refused)]], closed = True\<rparr>,
        [], two_rows)"
proof -
  have g: "get_by_id surrogate_id two_rows = None"
    "get_by_atuin_id surrogate_id two_rows = None"
    by (simp_all add: get_by_id_def get_by_atuin_id_def two_rows_def row_a_def row_b_def
        surrogate_id_def)
  have p: "process_message example_runtime replace_suffix under_recordings keep_one 10000000
       (JObj [(''action'', JStr ''get''), (''id'', JStr surrogate_id)]) ([], two_rows)
     = Inl (UnicodeEncodeError surrogate_refused)"
    using surrogate_id_has_surrogate
    by (simp add: process_message_def do_get_def dict_get_def example_runtime_def
        example_bind_error_def)
  have h: "handle_client example_runtime replace_suffix under_recordings keep_one 10000000
       (Inr surrogate_line) ([], two_rows)
     = (\<lparr>written = [JObj [(''error'', JStr surrogate_refused)]], closed = True\<rparr>,
        [], two_rows)"
    using handle_client_process_error [OF surrogate_loads p] by simp
  from surrogate_loads surrogate_id_has_surrogate g p h show ?thesis
    by (intro conjI)
qed

end
